theory Spec2Isabelle
  imports Main
begin

section \<open>The workflow engine of go-4devs/workflow\<close>

text \<open>
  The engine of \<^verbatim>\<open>workflow.go\<close>: named transitions between states, each guarded by a
  list of admissible source states, and middleware chains composed by \<^verbatim>\<open>chainProcess\<close>
  around a terminal step. Every Go function becomes a HOL function of the same name.
\<close>

subsection \<open>Values\<close>

text \<open>
  States and transition names are both \<^verbatim>\<open>fmt.Stringer\<close> values in the source. The
  engine only compares them with \<^verbatim>\<open>==\<close> and uses them as map keys, so they are the
  values of one type \<open>'f\<close> with HOL equality (an interface value whose dynamic type is
  not comparable makes \<^verbatim>\<open>==\<close> panic in Go; such values are not values of \<open>'f\<close>).

  \<^verbatim>\<open>Data\<close> is an interface with the single method \<^verbatim>\<open>GetState\<close>: a record with that
  field, extensible by whatever else the entity carries. A nil \<^verbatim>\<open>Data\<close> has no state to
  report; it occurs in the model only as a returned value (the \<open>option\<close> of a result),
  as in \<^verbatim>\<open>return nil, ErrTransitNotAllowed\<close>.
\<close>

record 'f Data =
  GetState :: 'f

text \<open>
  The two sentinel errors of the package, and any other error a middleware or the apply
  function may return.
\<close>

datatype error = ErrTransitNotAllowed | ErrDuplicateTransit | Err string

text \<open>
  The run-time panics the engine itself can raise: calling a nil function value and
  indexing a slice out of range.
\<close>

datatype panic = NilFuncCall | IndexOutOfRange

text \<open>
  A call returns the pair \<^verbatim>\<open>(Data, error)\<close> of the source, each component possibly
  nil, together with the state \<open>'s\<close> of everything outside the engine that middleware and
  the apply function read and change (the list of recorded names in the tests, a
  database); or it panics.
\<close>

type_synonym ('d, 's) outcome = "panic + ('d option \<times> error option) \<times> 's"

text \<open>\<^verbatim>\<open>type Process func(ctx context.Context, data Data) (Data, error)\<close>\<close>

type_synonym ('c, 'd, 's) Process = "'c \<Rightarrow> 'd \<Rightarrow> 's \<Rightarrow> ('d, 's) outcome"

text \<open>
  \<^verbatim>\<open>type Middleware func(ctx context.Context, data Data, next Process) (Data, error)\<close>.
  A value of a Go function type may be nil, and the source tests for it
  (\<^verbatim>\<open>transit.Middleware != nil\<close>): \<open>None\<close> is the nil function.
\<close>

type_synonym ('c, 'd, 's) Middleware =
  "('c \<Rightarrow> 'd \<Rightarrow> ('c, 'd, 's) Process \<Rightarrow> 's \<Rightarrow> ('d, 's) outcome) option"

text \<open>Calling a function value: a nil function panics.\<close>

fun call :: "('c, 'd, 's) Middleware \<Rightarrow> 'c \<Rightarrow> 'd \<Rightarrow> ('c, 'd, 's) Process \<Rightarrow> 's \<Rightarrow> ('d, 's) outcome" where
  "call None ctx data next s = Inl NilFuncCall"
| "call (Some f) ctx data next s = f ctx data next s"

text \<open>\<^verbatim>\<open>type Apply func(ctx context.Context, data Data, dst fmt.Stringer) (Data, error)\<close>\<close>

type_synonym ('c, 'd, 'f, 's) Apply = "'c \<Rightarrow> 'd \<Rightarrow> 'f \<Rightarrow> 's \<Rightarrow> ('d, 's) outcome"

record ('f, 'c, 'd, 's) Transition =
  Src :: "'f list"
  Dst :: 'f
  Middleware :: "('c, 'd, 's) Middleware"

subsection \<open>Transition.Can\<close>

text \<open>
  The \<^verbatim>\<open>range\<close> loop of \<^verbatim>\<open>Can\<close>: the first element of \<^verbatim>\<open>Src\<close> equal to the state
  of the data returns true, the end of the slice returns false.
\<close>

primrec Can_range :: "('f, 'z) Data_scheme \<Rightarrow> 'f list \<Rightarrow> bool" where
  "Can_range data [] = False"
| "Can_range data (src # rest) = (if GetState data = src then True else Can_range data rest)"

definition Transition_Can :: "('f, 'c, 'd, 's) Transition \<Rightarrow> ('f, 'z) Data_scheme \<Rightarrow> bool" where
  "Transition_Can tr data = (if length (Src tr) = 0 then True else Can_range data (Src tr))"

subsection \<open>chainProcess\<close>

text \<open>
  The closure \<^verbatim>\<open>chainHandler\<close> that \<^verbatim>\<open>chainProcess\<close> hands to every middleware of a
  chain of two or more. In the source it reads the cursor \<^verbatim>\<open>curI\<close>, a variable local
  to one invocation of the composed middleware: it is incremented just before
  \<^verbatim>\<open>handleFunc[curI]\<close> is entered and decremented just after that call returns. So while
  \<^verbatim>\<open>handleFunc[i]\<close> runs, which is when it can invoke the continuation it was handed,
  the cursor holds \<open>i\<close>, and the closure is modelled with the cursor value it finds as
  the argument \<open>curI\<close>: the continuation handed to \<^verbatim>\<open>handleFunc[i]\<close> is
  \<open>chainHandler handleFunc lastI data next i\<close>. (A continuation kept and invoked after
  its middleware has returned, or after a recovered panic skipped the decrement, is
  outside this model.)

  Note the two data arguments: \<open>data\<close> is the parameter of the composed middleware (line
  116 of the source), \<open>currentData\<close> the parameter of \<^verbatim>\<open>chainHandler\<close>. Line 123,
  \<^verbatim>\<open>return next(currentCtx, data)\<close>, names the former: the \<^verbatim>\<open>data\<close> declared on line
  126 is not yet in scope there.
\<close>

function chainHandler ::
  "('c, 'd, 's) Middleware list \<Rightarrow> nat \<Rightarrow> 'd \<Rightarrow> ('c, 'd, 's) Process \<Rightarrow> nat \<Rightarrow> ('c, 'd, 's) Process" where
  "chainHandler handleFunc lastI data next curI =
     (\<lambda>currentCtx currentData s.
        if curI = lastI then next currentCtx data s
        else if curI + 1 < length handleFunc
          then call (handleFunc ! (curI + 1)) currentCtx currentData
                 (chainHandler handleFunc lastI data next (curI + 1)) s
          else Inl IndexOutOfRange)"
  by pat_completeness auto
termination
  by (relation "measure (\<lambda>(handleFunc, lastI, data, next, curI). length handleFunc - curI)") auto

declare chainHandler.simps [simp del]

definition chainProcess :: "('c, 'd, 's) Middleware list \<Rightarrow> ('c, 'd, 's) Middleware" where
  "chainProcess handleFunc =
     (let n = length handleFunc in
      if n > 1 then
        (let lastI = n - 1 in
         Some (\<lambda>ctx data next.
           call (handleFunc ! 0) ctx data (chainHandler handleFunc lastI data next 0)))
      else if n = 1 then handleFunc ! 0
      else Some (\<lambda>ctx data next. next ctx data))"

text \<open>
  The composition as the specification words it (section 4.2), for comparison with
  \<open>chainProcess\<close>: the first middleware is called with a continuation that calls the
  second, and so on; the continuation of the last middleware is the terminal.
\<close>

fun onion :: "('c, 'd, 's) Middleware list \<Rightarrow> ('c, 'd, 's) Process \<Rightarrow> ('c, 'd, 's) Process" where
  "onion [] terminal = terminal"
| "onion (m # ms) terminal = (\<lambda>ctx data. call m ctx data (onion ms terminal))"

subsection \<open>The workflow\<close>

text \<open>
  The registry maps a name to its transition. The mutex \<^verbatim>\<open>mu\<close> serialises concurrent
  calls of \<^verbatim>\<open>Add\<close>; the model is sequential and has no field for it.
\<close>

record ('f, 'c, 'd, 's) Workflow =
  transitions :: "'f \<rightharpoonup> ('f, 'c, 'd, 's) Transition"
  apply_fn :: "('c, 'd, 'f, 's) Apply"
  mw :: "('c, 'd, 's) Middleware"

definition NewWorkflow ::
  "('c, 'd, 'f, 's) Apply \<Rightarrow> ('c, 'd, 's) Middleware list \<Rightarrow> ('f, 'c, 'd, 's) Workflow" where
  "NewWorkflow a mws = \<lparr>transitions = Map.empty, apply_fn = a, mw = chainProcess mws\<rparr>"

definition Workflow_Get ::
  "('f, 'c, 'd, 's) Workflow \<Rightarrow> ('f, 'z) Data_scheme \<Rightarrow> 'f \<Rightarrow> ('f, 'c, 'd, 's) Transition option" where
  "Workflow_Get w data transit =
     (case transitions w transit of
        None \<Rightarrow> None
      | Some tr \<Rightarrow> if \<not> Transition_Can tr data then None else Some tr)"

text \<open>
  \<^verbatim>\<open>Add\<close> returns its error, and changes two objects: the workflow and, through the
  pointer it is given, the caller's \<^verbatim>\<open>Transition\<close>, whose \<^verbatim>\<open>Middleware\<close> field it
  rewrites before storing the pointer. The model returns all three. The registry holds
  the transition as a value: what one name's entry is after \<^verbatim>\<open>Add\<close> wrote it. (One
  \<^verbatim>\<open>Transition\<close> object registered under two names, or changed by its owner after
  registration, would need a store of objects; nothing below depends on that. The pointer
  is taken to be non-nil.)
\<close>

definition Workflow_Add ::
  "('f, 'c, 'd, 's) Workflow \<Rightarrow> 'f \<Rightarrow> ('f, 'c, 'd, 's) Transition \<Rightarrow> ('c, 'd, 's) Middleware list
     \<Rightarrow> error option \<times> ('f, 'c, 'd, 's) Workflow \<times> ('f, 'c, 'd, 's) Transition" where
  "Workflow_Add w name transit mws =
     (case transitions w name of
        Some _ \<Rightarrow> (Some ErrDuplicateTransit, w, transit)
      | None \<Rightarrow>
          (let mws' = (if Middleware transit \<noteq> None then mws @ [Middleware transit] else mws);
               transit' = transit\<lparr>Middleware := chainProcess mws'\<rparr>
           in (None, w\<lparr>transitions := (transitions w)(name \<mapsto> transit')\<rparr>, transit')))"

definition Workflow_Can :: "('f, 'c, 'd, 's) Workflow \<Rightarrow> ('f, 'z) Data_scheme \<Rightarrow> 'f \<Rightarrow> bool" where
  "Workflow_Can w data transit = (Workflow_Get w data transit \<noteq> None)"

definition Workflow_Apply ::
  "('f, 'c, ('f, 'z) Data_scheme, 's) Workflow \<Rightarrow> 'c \<Rightarrow> ('f, 'z) Data_scheme \<Rightarrow> 'f
     \<Rightarrow> 's \<Rightarrow> (('f, 'z) Data_scheme, 's) outcome" where
  "Workflow_Apply w ctx data transit =
     call (mw w) ctx data
       (\<lambda>ctx data.
          case Workflow_Get w data transit of
            Some tr \<Rightarrow>
              call (Middleware tr) ctx data (\<lambda>ctx data. apply_fn w ctx data (Dst tr))
          | None \<Rightarrow> (\<lambda>s. Inr ((None, Some ErrTransitNotAllowed), s)))"

text \<open>
  The workflows that a program can build: \<^verbatim>\<open>NewWorkflow\<close>, then calls of \<^verbatim>\<open>Add\<close>.
  The one way to obtain a nil chain from \<^verbatim>\<open>chainProcess\<close> is a list holding a single nil
  function; \<open>built\<close> leaves out the calls that supply exactly that.
\<close>

inductive built :: "('f, 'c, 'd, 's) Workflow \<Rightarrow> bool" where
  built_New: "mws \<noteq> [None] \<Longrightarrow> built (NewWorkflow a mws)"
| built_Add: "built w \<Longrightarrow> \<not> (mws = [None] \<and> Middleware transit = None) \<Longrightarrow>
     Workflow_Add w name transit mws = (e, w', transit') \<Longrightarrow> built w'"

subsection \<open>The fixtures of the package's tests\<close>

text \<open>
  The tests use two string types, \<^verbatim>\<open>testState\<close> and \<^verbatim>\<open>testTransit\<close>, as
  \<^verbatim>\<open>fmt.Stringer\<close>; the state of a fresh \<^verbatim>\<open>testData{}\<close> is the nil interface.
\<close>

datatype Stringer = NilStringer | testState string | testTransit string

definition toNew :: Stringer where "toNew = testTransit ''to new''"
definition toDone :: Stringer where "toDone = testTransit ''to done''"
definition toCancel :: Stringer where "toCancel = testTransit ''to cancel''"
definition newState :: Stringer where "newState = testState ''new''"
definition doneState :: Stringer where "doneState = testState ''done''"
definition cancelState :: Stringer where "cancelState = testState ''cancel''"

text \<open>
  \<^verbatim>\<open>testData\<close> is \<open>Stringer Data\<close>. The apply function of the tests sets the state
  of the data to the destination and returns it.
\<close>

definition testApply :: "('c, ('f, 'z) Data_scheme, 'f, 's) Apply" where
  "testApply ctx data dst s = Inr ((Some (data\<lparr>GetState := dst\<rparr>), None), s)"

text \<open>
  \<^verbatim>\<open>testMWFactory.Success\<close>: a middleware that appends its name to the list \<^verbatim>\<open>ex\<close>
  of the factory and calls its continuation. The list is the outside state.
\<close>

definition Success :: "string \<Rightarrow> ('c, 'd, string list) Middleware" where
  "Success name = Some (\<lambda>ctx data next ex. next ctx data (ex @ [name]))"

text \<open>
  The workflow of \<^verbatim>\<open>TestWorkflow_Apply_Middleware\<close> after its three calls of
  \<^verbatim>\<open>Add\<close>, with the errors they returned.
\<close>

definition middlewareWorkflow ::
  "error option list \<times> (Stringer, unit, Stringer Data, string list) Workflow" where
  "middlewareWorkflow =
     (let w0 = NewWorkflow testApply [];
          (e1, w1, t1) = Workflow_Add w0 toNew
             \<lparr>Src = [], Dst = newState, Middleware = None\<rparr> [Success ''new''];
          (e2, w2, t2) = Workflow_Add w1 toDone
             \<lparr>Src = [newState], Dst = doneState, Middleware = Success ''done''\<rparr> [];
          (e3, w3, t3) = Workflow_Add w2 toCancel
             \<lparr>Src = [newState, doneState], Dst = cancelState, Middleware = Success ''cancel''\<rparr>
             [Success ''cancel add 1'', Success ''cancel add 2'', Success ''cancel add 3'']
      in ([e1, e2, e3], w3))"

subsection \<open>Further middleware and a terminal, used as concrete inputs\<close>

text \<open>A middleware that calls its continuation with what it was given.\<close>

definition passOn :: "('c, 'd, 's) Middleware" where
  "passOn = Some (\<lambda>ctx data next. next ctx data)"

text \<open>A middleware that calls its continuation with the data moved to the state \<open>st\<close>.\<close>

definition withState :: "'f \<Rightarrow> ('c, ('f, 'z) Data_scheme, 's) Middleware" where
  "withState st = Some (\<lambda>ctx data next. next ctx (data\<lparr>GetState := st\<rparr>))"

text \<open>A middleware that returns its data and no error, and never calls its continuation.\<close>

definition stop :: "('c, 'd, 's) Middleware" where
  "stop = Some (\<lambda>ctx data next s. Inr ((Some data, None), s))"

text \<open>
  A middleware that calls its continuation and replaces what it returns by an error of
  its own.
\<close>

definition override :: "('c, 'd, 's) Middleware" where
  "override = Some (\<lambda>ctx data next s.
     case next ctx data s of
       Inl p \<Rightarrow> Inl p
     | Inr (r, s') \<Rightarrow> Inr ((None, Some (Err ''overridden'')), s'))"

text \<open>A terminal that returns the data it receives.\<close>

definition echo :: "('c, 'd, 's) Process" where
  "echo ctx data s = Inr ((Some data, None), s)"

section \<open>Properties\<close>

subsection \<open>The shape of a composed chain\<close>

lemma chainHandler_last:
  "chainHandler handleFunc lastI data next lastI = (\<lambda>currentCtx currentData. next currentCtx data)"
  by (simp add: chainHandler.simps)

lemma chainHandler_step:
  "curI \<noteq> lastI \<Longrightarrow> curI + 1 < length handleFunc \<Longrightarrow>
   chainHandler handleFunc lastI data next curI =
     (\<lambda>currentCtx currentData.
        call (handleFunc ! (curI + 1)) currentCtx currentData
          (chainHandler handleFunc lastI data next (curI + 1)))"
  by (simp add: chainHandler.simps)

lemma chainProcess_many:
  "1 < length handleFunc \<Longrightarrow>
   call (chainProcess handleFunc) ctx data next =
     call (handleFunc ! 0) ctx data (chainHandler handleFunc (length handleFunc - 1) data next 0)"
  by (simp add: chainProcess_def fun_eq_iff)

text \<open>
  The composed middleware is the onion of the specification, except that in a chain of
  two or more the terminal is called with the data of the composed middleware, whatever
  the last middleware passes to its continuation.
\<close>

lemma chainHandler_onion:
  "i < length handleFunc \<Longrightarrow>
   chainHandler handleFunc (length handleFunc - 1) data terminal i =
     onion (drop (Suc i) handleFunc) (\<lambda>ctx d. terminal ctx data)"
proof (induction "length handleFunc - i" arbitrary: i)
  case 0
  then show ?case by simp
next
  case (Suc k)
  show ?case
  proof (cases "i = length handleFunc - 1")
    case True
    then have "drop (Suc i) handleFunc = []" using Suc.prems by simp
    with True show ?thesis by (simp add: chainHandler_last)
  next
    case False
    with Suc.prems have lt: "i + 1 < length handleFunc" by simp
    then have d: "drop (Suc i) handleFunc = handleFunc ! (i + 1) # drop (Suc (i + 1)) handleFunc"
      by (simp add: Cons_nth_drop_Suc)
    have "k = length handleFunc - (i + 1)" using Suc.hyps(2) by simp
    from Suc.hyps(1) [OF this lt]
    have ih: "chainHandler handleFunc (length handleFunc - 1) data terminal (i + 1) =
        onion (drop (Suc (i + 1)) handleFunc) (\<lambda>ctx d. terminal ctx data)" .
    show ?thesis
      by (simp only: chainHandler_step [OF False lt] d onion.simps ih)
  qed
qed

lemma chainProcess_onion:
  "call (chainProcess handleFunc) ctx data terminal =
     onion handleFunc (if 1 < length handleFunc then (\<lambda>c d. terminal c data) else terminal)
       ctx data"
proof (cases handleFunc)
  case Nil
  then show ?thesis by (simp add: chainProcess_def fun_eq_iff)
next
  case (Cons m ms)
  show ?thesis
  proof (cases ms)
    case Nil
    with Cons show ?thesis by (simp add: chainProcess_def fun_eq_iff)
  next
    case (Cons m' ms')
    with \<open>handleFunc = m # ms\<close> have l: "1 < length handleFunc" "0 < length handleFunc"
      by simp_all
    have "drop (Suc 0) handleFunc = ms" using \<open>handleFunc = m # ms\<close> by simp
    with chainHandler_onion [OF l(2), of data terminal]
    have "chainHandler handleFunc (length handleFunc - 1) data terminal 0 =
        onion ms (\<lambda>ctx d. terminal ctx data)"
      by simp
    with l(1) \<open>handleFunc = m # ms\<close> show ?thesis
      by (simp add: chainProcess_many)
  qed
qed

lemma chainProcess_None_iff: "chainProcess handleFunc = None \<longleftrightarrow> handleFunc = [None]"
proof (cases handleFunc)
  case Nil
  then show ?thesis by (simp add: chainProcess_def)
next
  case (Cons m ms)
  then show ?thesis by (cases ms) (simp_all add: chainProcess_def)
qed

lemma Can_range_iff: "Can_range data srcs \<longleftrightarrow> GetState data \<in> set srcs"
  by (induction srcs) auto

subsection \<open>What Add does\<close>

lemma Add_cases:
  "Workflow_Add w name transit mws = (e, w', transit') \<Longrightarrow>
   (e = Some ErrDuplicateTransit \<and> transitions w name \<noteq> None \<and> w' = w \<and> transit' = transit) \<or>
   (e = None \<and> transitions w name = None \<and>
    transit' = transit\<lparr>Middleware :=
      chainProcess (if Middleware transit \<noteq> None then mws @ [Middleware transit] else mws)\<rparr> \<and>
    w' = w\<lparr>transitions := (transitions w)(name \<mapsto> transit')\<rparr>)"
  by (auto simp: Workflow_Add_def Let_def split: option.splits)

lemma Add_success:
  "Workflow_Add w name transit mws = (None, w', transit') \<Longrightarrow>
   transitions w name = None \<and>
   transit' = transit\<lparr>Middleware :=
      chainProcess (if Middleware transit \<noteq> None then mws @ [Middleware transit] else mws)\<rparr> \<and>
   w' = w\<lparr>transitions := (transitions w)(name \<mapsto> transit')\<rparr>"
  by (auto dest: Add_cases)

lemma Add_registered:
  "transitions w name \<noteq> None \<Longrightarrow>
   Workflow_Add w name transit mws = (Some ErrDuplicateTransit, w, transit)"
  by (auto simp: Workflow_Add_def)

lemma built_non_nil:
  "built w \<Longrightarrow> mw w \<noteq> None \<and> (\<forall>n tr. transitions w n = Some tr \<longrightarrow> Middleware tr \<noteq> None)"
proof (induction rule: built.induct)
  case (built_New mws a)
  then show ?case by (simp add: NewWorkflow_def chainProcess_None_iff)
next
  case (built_Add w mws transit name e w' transit')
  from built_Add.hyps(3) show ?case
  proof (elim Add_cases [THEN disjE])
    assume "e = Some ErrDuplicateTransit \<and> transitions w name \<noteq> None \<and> w' = w \<and> transit' = transit"
    then show ?thesis using built_Add.IH by simp
  next
    assume a: "e = None \<and> transitions w name = None \<and>
      transit' = transit\<lparr>Middleware :=
        chainProcess (if Middleware transit \<noteq> None then mws @ [Middleware transit] else mws)\<rparr> \<and>
      w' = w\<lparr>transitions := (transitions w)(name \<mapsto> transit')\<rparr>"
    have "Middleware transit' \<noteq> None"
      using a built_Add.hyps(2) by (auto simp: chainProcess_None_iff)
    then show ?thesis using a built_Add.IH by auto
  qed
qed

lemmas fixture_defs =
  toNew_def toDone_def toCancel_def newState_def doneState_def cancelState_def

lemma middlewareWorkflow_fields:
  "transitions (snd middlewareWorkflow) = 
     [toNew \<mapsto> \<lparr>Src = [], Dst = newState, Middleware = Success ''new''\<rparr>,
      toDone \<mapsto> \<lparr>Src = [newState], Dst = doneState, Middleware = Success ''done''\<rparr>,
      toCancel \<mapsto> \<lparr>Src = [newState, doneState], Dst = cancelState,
         Middleware = chainProcess [Success ''cancel add 1'', Success ''cancel add 2'',
           Success ''cancel add 3'', Success ''cancel'']\<rparr>]"
  "apply_fn (snd middlewareWorkflow) = testApply"
  "mw (snd middlewareWorkflow) = Some (\<lambda>ctx data next. next ctx data)"
  by (simp_all add: middlewareWorkflow_def Workflow_Add_def NewWorkflow_def fixture_defs Let_def
        Success_def chainProcess_def)

text \<open>
  The first call of \<^verbatim>\<open>Add\<close> in \<^verbatim>\<open>TestWorkflow_Apply\<close>:
  \<^verbatim>\<open>w.Add(toNew, &Transition{Dst: newState})\<close>.
\<close>

lemma TestWorkflow_Add_first:
  "Workflow_Add (NewWorkflow testApply [] :: (Stringer, unit, Stringer Data, string list) Workflow)
      toNew \<lparr>Src = [], Dst = newState, Middleware = None\<rparr> [] =
     (None,
      \<lparr>transitions = [toNew \<mapsto> \<lparr>Src = [], Dst = newState, Middleware = chainProcess []\<rparr>],
       apply_fn = testApply, mw = chainProcess []\<rparr>,
      \<lparr>Src = [], Dst = newState, Middleware = chainProcess []\<rparr>)"
  by (simp add: Workflow_Add_def NewWorkflow_def Let_def)

text \<open>
  C8. Composing the empty list of middleware gives the pass-through: whatever the
  context, the data, the terminal and the outside state, the composed middleware calls
  the terminal with that context and that data and returns what the terminal returns.
\<close>

theorem chainProcess_empty:
  "call (chainProcess []) ctx data terminal s = terminal ctx data s"
  by (simp add: chainProcess_def)

text \<open>
  C9. Composing a single middleware returns that middleware itself, with no wrapper
  around it; so the composed middleware and the middleware agree on every input.
\<close>

theorem chainProcess_single:
  "chainProcess [m] = m \<and>
   call (chainProcess [m]) ctx data terminal s = call m ctx data terminal s"
  by (simp add: chainProcess_def)

text \<open>
  C4. For every entity, \<^verbatim>\<open>Transition.Can\<close> is true whenever \<^verbatim>\<open>Src\<close> is empty; when
  \<^verbatim>\<open>Src\<close> is not empty it is true exactly when the state of the data equals an
  element of \<^verbatim>\<open>Src\<close>.
  It has no side effects: \<open>Transition_Can\<close> takes no outside state and returns only the
  boolean.
\<close>

theorem Transition_Can_iff:
  "(Src tr = [] \<longrightarrow> Transition_Can tr data) \<and>
   (Src tr \<noteq> [] \<longrightarrow>
      (Transition_Can tr data \<longleftrightarrow> (\<exists>src \<in> set (Src tr). GetState data = src)))"
  by (auto simp: Transition_Can_def Can_range_iff)

theorem Transition_Can_iff_witness:
  "Transition_Can
     (\<lparr>Src = [], Dst = newState, Middleware = None\<rparr> :: (Stringer, unit, Stringer Data, unit) Transition)
     \<lparr>GetState = NilStringer\<rparr> \<and>
   Transition_Can
     (\<lparr>Src = [newState, doneState], Dst = cancelState, Middleware = None\<rparr>
        :: (Stringer, unit, Stringer Data, unit) Transition)
     \<lparr>GetState = doneState\<rparr> \<and>
   \<not> Transition_Can
     (\<lparr>Src = [newState], Dst = doneState, Middleware = None\<rparr>
        :: (Stringer, unit, Stringer Data, unit) Transition)
     \<lparr>GetState = NilStringer\<rparr>"
  using
    Transition_Can_iff [of "\<lparr>Src = [], Dst = newState, Middleware = None\<rparr>
       :: (Stringer, unit, Stringer Data, unit) Transition" "\<lparr>GetState = NilStringer\<rparr>"]
    Transition_Can_iff [of "\<lparr>Src = [newState, doneState], Dst = cancelState, Middleware = None\<rparr>
       :: (Stringer, unit, Stringer Data, unit) Transition" "\<lparr>GetState = doneState\<rparr>"]
    Transition_Can_iff [of "\<lparr>Src = [newState], Dst = doneState, Middleware = None\<rparr>
       :: (Stringer, unit, Stringer Data, unit) Transition" "\<lparr>GetState = NilStringer\<rparr>"]
  by (simp add: newState_def doneState_def)


text \<open>
  C7. \<^verbatim>\<open>Get\<close> returns nil in exactly two cases: the name is not registered, or it is
  registered and the guard of its transition rejects the state of the data. Both give the
  same result, nil, so the result does not tell them apart. When \<^verbatim>\<open>Get\<close> returns a
  transition it is the registered one, and \<^verbatim>\<open>Workflow.Can\<close> is true exactly when
  \<^verbatim>\<open>Get\<close> returns a transition.
\<close>

theorem Get_not_found:
  "(Workflow_Get w data name = None \<longleftrightarrow>
      (transitions w name = None \<or>
       (\<exists>tr. transitions w name = Some tr \<and> \<not> Transition_Can tr data))) \<and>
   (\<forall>tr. Workflow_Get w data name = Some tr \<longrightarrow> transitions w name = Some tr) \<and>
   (Workflow_Can w data name \<longleftrightarrow> (\<exists>tr. Workflow_Get w data name = Some tr))"
  by (auto simp: Workflow_Get_def Workflow_Can_def split: option.splits if_splits)

theorem Get_not_found_witness:
  "transitions (snd middlewareWorkflow) newState = None \<and>
   Workflow_Get (snd middlewareWorkflow) \<lparr>GetState = NilStringer\<rparr> newState = None \<and>
   transitions (snd middlewareWorkflow) toDone =
     Some \<lparr>Src = [newState], Dst = doneState, Middleware = Success ''done''\<rparr> \<and>
   Workflow_Get (snd middlewareWorkflow) \<lparr>GetState = NilStringer\<rparr> toDone = None \<and>
   \<not> Workflow_Can (snd middlewareWorkflow) \<lparr>GetState = NilStringer\<rparr> toDone \<and>
   Workflow_Get (snd middlewareWorkflow) \<lparr>GetState = newState\<rparr> toDone =
     Some \<lparr>Src = [newState], Dst = doneState, Middleware = Success ''done''\<rparr> \<and>
   Workflow_Can (snd middlewareWorkflow) \<lparr>GetState = newState\<rparr> toDone"
proof -
  have unreg: "transitions (snd middlewareWorkflow) newState = None"
    by (simp add: middlewareWorkflow_fields fixture_defs)
  have reg: "transitions (snd middlewareWorkflow) toDone =
     Some \<lparr>Src = [newState], Dst = doneState, Middleware = Success ''done''\<rparr>"
    by (simp add: middlewareWorkflow_fields fixture_defs)
  have rejected: "\<not> Transition_Can
     (\<lparr>Src = [newState], Dst = doneState, Middleware = Success ''done''\<rparr>
        :: (Stringer, unit, Stringer Data, string list) Transition)
     \<lparr>GetState = NilStringer\<rparr>"
    by (simp add: Transition_Can_def fixture_defs)
  have admitted: "Workflow_Get (snd middlewareWorkflow) \<lparr>GetState = newState\<rparr> toDone =
     Some \<lparr>Src = [newState], Dst = doneState, Middleware = Success ''done''\<rparr>"
    by (simp add: Workflow_Get_def reg Transition_Can_def)
  show ?thesis
    using unreg reg rejected admitted
      Get_not_found [of "snd middlewareWorkflow" "\<lparr>GetState = NilStringer\<rparr>" newState]
      Get_not_found [of "snd middlewareWorkflow" "\<lparr>GetState = NilStringer\<rparr>" toDone]
      Get_not_found [of "snd middlewareWorkflow" "\<lparr>GetState = newState\<rparr>" toDone]
    by simp
qed

text \<open>
  C6. \<^verbatim>\<open>Add\<close> with a name that is already registered returns
  \<^verbatim>\<open>ErrDuplicateTransit\<close> and changes nothing: it returns the workflow and the
  transition it was given as they were. In particular, after a first successful
  \<^verbatim>\<open>Add\<close> of a name, which stores the transition with its destination and with the
  chain composed from the middleware of that call, every further \<^verbatim>\<open>Add\<close> of the name
  fails and leaves that entry in place.
\<close>

theorem Add_duplicate_unchanged:
  "(transitions w name \<noteq> None \<longrightarrow>
      Workflow_Add w name transit mws = (Some ErrDuplicateTransit, w, transit)) \<and>
   (Workflow_Add w name t1 mws1 = (None, w1, t1') \<longrightarrow>
      transitions w1 name = Some t1' \<and> Dst t1' = Dst t1 \<and> Src t1' = Src t1 \<and>
      Middleware t1' =
        chainProcess (if Middleware t1 \<noteq> None then mws1 @ [Middleware t1] else mws1) \<and>
      Workflow_Add w1 name transit mws = (Some ErrDuplicateTransit, w1, transit))"
proof (intro conjI impI)
  assume "transitions w name \<noteq> None"
  then show "Workflow_Add w name transit mws = (Some ErrDuplicateTransit, w, transit)"
    by (rule Add_registered)
next
  assume a: "Workflow_Add w name t1 mws1 = (None, w1, t1')"
  note s = Add_success [OF a]
  from s show stored: "transitions w1 name = Some t1'" by simp
  from s show "Dst t1' = Dst t1" by simp
  from s show "Src t1' = Src t1" by simp
  from s show "Middleware t1' =
      chainProcess (if Middleware t1 \<noteq> None then mws1 @ [Middleware t1] else mws1)"
    by simp
  from stored show "Workflow_Add w1 name transit mws = (Some ErrDuplicateTransit, w1, transit)"
    by (simp add: Add_registered)
qed

text \<open>
  The two calls of \<^verbatim>\<open>Add\<close> in \<^verbatim>\<open>TestWorkflow_Add\<close>: the second, of the same
  name with another destination, fails and the entry of the first stays.
\<close>

theorem Add_duplicate_unchanged_witness:
  "Workflow_Add (NewWorkflow testApply [] :: (Stringer, unit, Stringer Data, string list) Workflow)
      toNew \<lparr>Src = [], Dst = newState, Middleware = None\<rparr> [] =
     (None,
      \<lparr>transitions = [toNew \<mapsto> \<lparr>Src = [], Dst = newState, Middleware = chainProcess []\<rparr>],
       apply_fn = testApply, mw = chainProcess []\<rparr>,
      \<lparr>Src = [], Dst = newState, Middleware = chainProcess []\<rparr>) \<and>
   Workflow_Add
      (\<lparr>transitions = [toNew \<mapsto> \<lparr>Src = [], Dst = newState, Middleware = chainProcess []\<rparr>],
        apply_fn = testApply, mw = chainProcess []\<rparr>
         :: (Stringer, unit, Stringer Data, string list) Workflow)
      toNew \<lparr>Src = [], Dst = doneState, Middleware = None\<rparr> [] =
     (Some ErrDuplicateTransit,
      \<lparr>transitions = [toNew \<mapsto> \<lparr>Src = [], Dst = newState, Middleware = chainProcess []\<rparr>],
       apply_fn = testApply, mw = chainProcess []\<rparr>,
      \<lparr>Src = [], Dst = doneState, Middleware = None\<rparr>)"
  using TestWorkflow_Add_first
    Add_duplicate_unchanged [where w = "NewWorkflow testApply []" and name = toNew
      and ?t1.0 = "\<lparr>Src = [], Dst = newState, Middleware = None\<rparr>" and ?mws1.0 = "[]"
      and ?w1.0 = "\<lparr>transitions = [toNew \<mapsto> \<lparr>Src = [], Dst = newState, Middleware = chainProcess []\<rparr>],
         apply_fn = testApply, mw = chainProcess []\<rparr>
           :: (Stringer, unit, Stringer Data, string list) Workflow"
      and t1' = "\<lparr>Src = [], Dst = newState, Middleware = chainProcess []\<rparr>"
      and transit = "\<lparr>Src = [], Dst = doneState, Middleware = None\<rparr>" and mws = "[]"]
    Add_duplicate_unchanged [where name = toNew
      and w = "\<lparr>transitions = [toNew \<mapsto> \<lparr>Src = [], Dst = newState, Middleware = chainProcess []\<rparr>],
         apply_fn = testApply, mw = chainProcess []\<rparr>
           :: (Stringer, unit, Stringer Data, string list) Workflow"
      and transit = "\<lparr>Src = [], Dst = doneState, Middleware = None\<rparr>" and mws = "[]"]
  by simp

text \<open>
  C2. The scenario of \<^verbatim>\<open>TestWorkflow_Apply_Middleware\<close>. The three registrations
  succeed. Applying \<^verbatim>\<open>toNew\<close>, \<^verbatim>\<open>toDone\<close> and \<^verbatim>\<open>toCancel\<close> in sequence to a
  fresh entity, each on the data and the recorded list the one before returned, records
  the names in the order new, done, cancel add 1, cancel add 2, cancel add 3, cancel (the
  middleware given to \<^verbatim>\<open>Add\<close> in call order, the transition's own last), and the final
  state of the entity is cancel.
\<close>

theorem Apply_Middleware_order:
  "fst middlewareWorkflow = [None, None, None] \<and>
   Workflow_Apply (snd middlewareWorkflow) () \<lparr>GetState = NilStringer\<rparr> toNew [] =
     Inr ((Some \<lparr>GetState = newState\<rparr>, None), [''new'']) \<and>
   Workflow_Apply (snd middlewareWorkflow) () \<lparr>GetState = newState\<rparr> toDone [''new''] =
     Inr ((Some \<lparr>GetState = doneState\<rparr>, None), [''new'', ''done'']) \<and>
   Workflow_Apply (snd middlewareWorkflow) () \<lparr>GetState = doneState\<rparr> toCancel
       [''new'', ''done''] =
     Inr ((Some \<lparr>GetState = cancelState\<rparr>, None),
          [''new'', ''done'', ''cancel add 1'', ''cancel add 2'', ''cancel add 3'', ''cancel''])"
  by (simp add: middlewareWorkflow_def Workflow_Add_def NewWorkflow_def fixture_defs Let_def
        Workflow_Apply_def Workflow_Get_def chainProcess_def Transition_Can_def Success_def
        testApply_def chainHandler.simps)

text \<open>
  C1. In a chain of two or more, the data a middleware passes to its continuation is the
  data the next middleware is called with (\<open>chainHandler_step\<close>); but the continuation
  of the last middleware calls the terminal with the data the composed middleware was
  given, whatever the last middleware passes (\<open>chainHandler_last\<close>,
  \<open>chainProcess_onion\<close>). Here the second of
  two middleware moves the data from the state new to the state done before calling its
  continuation, and the terminal, which returns the data it receives, returns the data in
  the state new. Composed alone, the same middleware hands the terminal the data in the
  state done.
\<close>

theorem chainProcess_terminal_data:
  "call (chainProcess [passOn, withState doneState]) () \<lparr>GetState = newState\<rparr> echo
       ([] :: string list) =
     Inr ((Some \<lparr>GetState = newState\<rparr>, None), []) \<and>
   call (chainProcess [withState doneState]) () \<lparr>GetState = newState\<rparr> echo
       ([] :: string list) =
     Inr ((Some \<lparr>GetState = doneState\<rparr>, None), [])"
  by (simp add: chainProcess_def chainHandler.simps passOn_def withState_def echo_def)

text \<open>
  C3, as the claim states it, fails: the second middleware of the chain below returns its
  data and no error without calling its continuation (handed a continuation that panics,
  it does not panic), yet the result of the composed chain is the error the first
  middleware puts in place of what its continuation returned.
\<close>

theorem chain_short_circuit_counterexample:
  "call ([override, stop] ! 1) () \<lparr>GetState = newState\<rparr> (\<lambda>ctx data s. Inl NilFuncCall)
       ([] :: string list) =
     Inr ((Some \<lparr>GetState = newState\<rparr>, None), []) \<and>
   call (chainProcess [override, stop]) () \<lparr>GetState = newState\<rparr> echo ([] :: string list) =
     Inr ((None, Some (Err ''overridden'')), []) \<and>
   call (chainProcess [override, stop]) () \<lparr>GetState = newState\<rparr> echo ([] :: string list) \<noteq>
     Inr ((Some \<lparr>GetState = newState\<rparr>, None), [])"
  by (simp add: chainProcess_def chainHandler.simps override_def stop_def echo_def)

text \<open>
  C3, amended. Let the middleware at position \<open>p\<close> of a chain, called with \<open>ctx\<close> and
  \<open>d\<close> in the outside state \<open>s\<close>, return \<open>out\<close> without invoking its continuation:
  whatever continuation it is handed, it returns \<open>out\<close>. Then \<open>out\<close> is what its caller
  gets. For \<open>p = 0\<close> the caller is the caller of the composed middleware, and \<open>out\<close> is
  the result of the whole chain. For \<open>0 < p\<close> the caller is the middleware before it:
  the continuation that middleware was handed, \<open>chainHandler \<dots> (p - 1)\<close>, returns
  \<open>out\<close>, and the middleware before may return something else. Nothing is assumed of
  the other middleware or of the terminal, and \<open>out\<close> does not depend on them: no later
  middleware and no terminal is invoked.
\<close>

theorem chain_short_circuit:
  assumes "p < length handleFunc"
    and "\<And>k. call (handleFunc ! p) ctx d k s = out"
  shows "(p = 0 \<longrightarrow> call (chainProcess handleFunc) ctx d terminal s = out) \<and>
         (0 < p \<longrightarrow>
            chainHandler handleFunc (length handleFunc - 1) data terminal (p - 1) ctx d s = out)"
proof (intro conjI impI)
  assume "p = 0"
  show "call (chainProcess handleFunc) ctx d terminal s = out"
  proof (cases "1 < length handleFunc")
    case True
    then show ?thesis using assms(2) \<open>p = 0\<close> by (simp add: chainProcess_many)
  next
    case False
    with assms(1) have "length handleFunc = 1" by simp
    then show ?thesis using assms(2) \<open>p = 0\<close> by (simp add: chainProcess_def)
  qed
next
  assume "0 < p"
  with assms(1) have "p - 1 \<noteq> length handleFunc - 1" and "(p - 1) + 1 < length handleFunc"
    by auto
  then have "chainHandler handleFunc (length handleFunc - 1) data terminal (p - 1) =
     (\<lambda>c e. call (handleFunc ! ((p - 1) + 1)) c e
        (chainHandler handleFunc (length handleFunc - 1) data terminal ((p - 1) + 1)))"
    by (rule chainHandler_step)
  with \<open>0 < p\<close> assms(2)
  show "chainHandler handleFunc (length handleFunc - 1) data terminal (p - 1) ctx d s = out"
    by simp
qed

text \<open>
  Two chains in which the middleware after \<open>stop\<close> is the nil function and the terminal
  panics: neither is reached.
\<close>

theorem chain_short_circuit_witness:
  "chainHandler [override, stop, None] 2 \<lparr>GetState = newState\<rparr> (\<lambda>ctx data s. Inl NilFuncCall) 0
       () \<lparr>GetState = doneState\<rparr> ([] :: string list) =
     Inr ((Some \<lparr>GetState = doneState\<rparr>, None), []) \<and>
   call (chainProcess [stop, None]) () \<lparr>GetState = doneState\<rparr> (\<lambda>ctx data s. Inl NilFuncCall)
       ([] :: string list) =
     Inr ((Some \<lparr>GetState = doneState\<rparr>, None), [])"
proof -
  have second: "call ([override, stop, None] ! 1) () \<lparr>GetState = doneState\<rparr> k ([] :: string list) =
      Inr ((Some \<lparr>GetState = doneState\<rparr>, None), [])"
    for k :: "(unit, Stringer Data, string list) Process"
    by (simp add: stop_def)
  have first: "call ([stop, None] ! 0) () \<lparr>GetState = doneState\<rparr> k ([] :: string list) =
      Inr ((Some \<lparr>GetState = doneState\<rparr>, None), [])"
    for k :: "(unit, Stringer Data, string list) Process"
    by (simp add: stop_def)
  have "(1::nat) < length [override, stop, None :: (unit, Stringer Data, string list) Middleware]"
    by simp
  from chain_short_circuit [OF this second,
      of "\<lambda>ctx data s. Inl NilFuncCall" "\<lparr>GetState = newState\<rparr>"]
  have a: "chainHandler [override, stop, None] 2 \<lparr>GetState = newState\<rparr>
       (\<lambda>ctx data s. Inl NilFuncCall) 0 () \<lparr>GetState = doneState\<rparr> ([] :: string list) =
     Inr ((Some \<lparr>GetState = doneState\<rparr>, None), [])"
    by (simp add: numeral_2_eq_2)
  have "(0::nat) < length [stop, None :: (unit, Stringer Data, string list) Middleware]"
    by simp
  from chain_short_circuit [OF this first,
      of "\<lambda>ctx data s. Inl NilFuncCall" "\<lparr>GetState = newState\<rparr>"]
  have b: "call (chainProcess [stop, None]) () \<lparr>GetState = doneState\<rparr>
       (\<lambda>ctx data s. Inl NilFuncCall) ([] :: string list) =
     Inr ((Some \<lparr>GetState = doneState\<rparr>, None), [])"
    by simp
  from a b show ?thesis by simp
qed

text \<open>
  C5, as the claim states it, fails: \<^verbatim>\<open>Apply\<close> returns what the global middleware
  returns. The workflow below has no transition at all, and a global middleware that
  returns its data and no error.
\<close>

theorem Apply_unregistered_counterexample:
  "transitions
     (NewWorkflow testApply [stop] :: (Stringer, unit, Stringer Data, string list) Workflow)
     toNew = None \<and>
   \<not> Workflow_Can
     (NewWorkflow testApply [stop] :: (Stringer, unit, Stringer Data, string list) Workflow)
     \<lparr>GetState = NilStringer\<rparr> toNew \<and>
   Workflow_Apply (NewWorkflow testApply [stop]) () \<lparr>GetState = NilStringer\<rparr> toNew
       ([] :: string list) =
     Inr ((Some \<lparr>GetState = NilStringer\<rparr>, None), []) \<and>
   Workflow_Apply (NewWorkflow testApply [stop]) () \<lparr>GetState = NilStringer\<rparr> toNew
       ([] :: string list) \<noteq>
     Inr ((None, Some ErrTransitNotAllowed), [])"
  by (simp add: NewWorkflow_def Workflow_Apply_def Workflow_Can_def Workflow_Get_def
        chainProcess_def stop_def)

text \<open>
  C5, amended. When no transition is registered under \<open>T\<close>, \<^verbatim>\<open>Can\<close> is false for every
  data, and \<^verbatim>\<open>Apply\<close> is the global middleware called with a continuation that
  returns nil data and \<^verbatim>\<open>ErrTransitNotAllowed\<close> and leaves the outside state as it
  is: that continuation invokes neither a middleware of a transition nor the apply
  function. So \<^verbatim>\<open>Apply\<close> returns what the global middleware makes of that result; for
  a workflow built with no global middleware it returns nil data and
  \<^verbatim>\<open>ErrTransitNotAllowed\<close>.
\<close>

theorem Apply_unregistered:
  assumes "transitions w T = None"
  shows "\<not> Workflow_Can w data T \<and>
         Workflow_Apply w ctx data T s =
           call (mw w) ctx data (\<lambda>ctx data s. Inr ((None, Some ErrTransitNotAllowed), s)) s \<and>
         (mw w = chainProcess [] \<longrightarrow>
            Workflow_Apply w ctx data T s = Inr ((None, Some ErrTransitNotAllowed), s))"
proof -
  have get: "Workflow_Get w d T = None" for d :: "('a, 'e) Data_scheme"
    using assms by (simp add: Workflow_Get_def)
  have "Workflow_Apply w ctx data T s =
          call (mw w) ctx data (\<lambda>ctx data s. Inr ((None, Some ErrTransitNotAllowed), s)) s"
    by (simp add: Workflow_Apply_def get)
  moreover have "\<not> Workflow_Can w data T"
    by (simp add: Workflow_Can_def get)
  ultimately show ?thesis by (simp add: chainProcess_def)
qed

theorem Apply_unregistered_witness:
  "transitions (snd middlewareWorkflow) newState = None \<and>
   \<not> Workflow_Can (snd middlewareWorkflow) \<lparr>GetState = NilStringer\<rparr> newState \<and>
   mw (snd middlewareWorkflow) = chainProcess [] \<and>
   Workflow_Apply (snd middlewareWorkflow) () \<lparr>GetState = NilStringer\<rparr> newState [] =
     Inr ((None, Some ErrTransitNotAllowed), [])"
proof -
  have h: "transitions (snd middlewareWorkflow) newState = None"
    by (simp add: middlewareWorkflow_fields fixture_defs)
  have m: "mw (snd middlewareWorkflow) = chainProcess []"
    by (simp add: middlewareWorkflow_fields chainProcess_def)
  show ?thesis
    using h m Apply_unregistered [OF h, of "\<lparr>GetState = NilStringer\<rparr>" "()" "[]"]
    by (simp add: chainProcess_def)
qed

text \<open>
  C10, as the claim states it, fails: a successful \<^verbatim>\<open>Add\<close> of a transition with no
  middleware of its own and with one extra middleware that is the nil function stores nil
  (\<^verbatim>\<open>chainProcess\<close> returns the single element of its list as it is), and \<^verbatim>\<open>Apply\<close>
  of that transition calls the nil function; likewise \<^verbatim>\<open>NewWorkflow\<close> given one nil
  middleware.
\<close>

theorem stored_Middleware_non_nil_counterexample:
  "fst (Workflow_Add
          (NewWorkflow testApply [] :: (Stringer, unit, Stringer Data, string list) Workflow)
          toNew \<lparr>Src = [], Dst = newState, Middleware = None\<rparr> [None]) = None \<and>
   map_option Middleware
     (transitions (fst (snd (Workflow_Add
        (NewWorkflow testApply [] :: (Stringer, unit, Stringer Data, string list) Workflow)
        toNew \<lparr>Src = [], Dst = newState, Middleware = None\<rparr> [None]))) toNew) = Some None \<and>
   Workflow_Apply (fst (snd (Workflow_Add
        (NewWorkflow testApply [] :: (Stringer, unit, Stringer Data, string list) Workflow)
        toNew \<lparr>Src = [], Dst = newState, Middleware = None\<rparr> [None])))
      () \<lparr>GetState = NilStringer\<rparr> toNew [] = Inl NilFuncCall \<and>
   mw (NewWorkflow testApply [None] :: (Stringer, unit, Stringer Data, string list) Workflow) =
     None"
  by (simp add: Workflow_Add_def NewWorkflow_def chainProcess_def Let_def Workflow_Apply_def
        Workflow_Get_def Transition_Can_def)

text \<open>
  C10, amended. After a successful \<^verbatim>\<open>Add\<close> the transition stored under the name is
  the one the call rewrote, and its \<^verbatim>\<open>Middleware\<close> is nil only if the call supplied
  exactly one extra middleware, the nil function, for a transition with no middleware of
  its own; with no extra middleware and none of its own it is the pass-through of the
  empty chain. The global chain \<^verbatim>\<open>NewWorkflow\<close> sets is nil only if it was given
  exactly one middleware, the nil function; given none, it is the pass-through. Hence in
  every workflow built by \<^verbatim>\<open>NewWorkflow\<close> and calls of \<^verbatim>\<open>Add\<close>, none of them
  supplying just that single nil function, the global chain and the \<^verbatim>\<open>Middleware\<close> of
  every registered transition, which are the two functions \<^verbatim>\<open>Apply\<close> calls, are not
  nil.
\<close>

theorem stored_Middleware_non_nil:
  "(Workflow_Add w name transit mws = (None, w', transit') \<longrightarrow>
      transitions w' name = Some transit' \<and>
      (Middleware transit' = None \<longleftrightarrow> mws = [None] \<and> Middleware transit = None) \<and>
      (mws = [] \<and> Middleware transit = None \<longrightarrow>
         Middleware transit' = Some (\<lambda>ctx data next. next ctx data))) \<and>
   (mw (NewWorkflow a gmws) = None \<longleftrightarrow> gmws = [None]) \<and>
   mw (NewWorkflow a []) = Some (\<lambda>ctx data next. next ctx data) \<and>
   (built b \<longrightarrow>
      mw b \<noteq> None \<and> (\<forall>n tr. transitions b n = Some tr \<longrightarrow> Middleware tr \<noteq> None))"
proof (intro conjI impI)
  assume a: "Workflow_Add w name transit mws = (None, w', transit')"
  note s = Add_success [OF a]
  from s show "transitions w' name = Some transit'" by simp
  from s show "Middleware transit' = None \<longleftrightarrow> mws = [None] \<and> Middleware transit = None"
    by (auto simp: chainProcess_None_iff)
  assume "mws = [] \<and> Middleware transit = None"
  with s show "Middleware transit' = Some (\<lambda>ctx data next. next ctx data)"
    by (simp add: chainProcess_def)
next
  show "mw (NewWorkflow a gmws) = None \<longleftrightarrow> gmws = [None]"
    by (simp add: NewWorkflow_def chainProcess_None_iff)
  show "mw (NewWorkflow a []) = Some (\<lambda>ctx data next. next ctx data)"
    by (simp add: NewWorkflow_def chainProcess_def)
next
  assume "built b"
  then show "mw b \<noteq> None" by (simp add: built_non_nil)
next
  assume "built b"
  then show "\<forall>n tr. transitions b n = Some tr \<longrightarrow> Middleware tr \<noteq> None"
    by (simp add: built_non_nil)
qed

text \<open>
  A workflow with no global middleware and a first call of \<^verbatim>\<open>Add\<close> with no middleware
  at all, as in \<^verbatim>\<open>TestWorkflow_Apply\<close>: the stored chain and the global chain are the
  pass-through.
\<close>

theorem stored_Middleware_non_nil_witness:
  "Workflow_Add (NewWorkflow testApply [] :: (Stringer, unit, Stringer Data, string list) Workflow)
      toNew \<lparr>Src = [], Dst = newState, Middleware = None\<rparr> [] =
     (None,
      \<lparr>transitions = [toNew \<mapsto> \<lparr>Src = [], Dst = newState, Middleware = chainProcess []\<rparr>],
       apply_fn = testApply, mw = chainProcess []\<rparr>,
      \<lparr>Src = [], Dst = newState, Middleware = chainProcess []\<rparr>) \<and>
   chainProcess [] = (Some (\<lambda>ctx data next. next ctx data)
      :: (unit, Stringer Data, string list) Middleware) \<and>
   built (\<lparr>transitions = [toNew \<mapsto> \<lparr>Src = [], Dst = newState, Middleware = chainProcess []\<rparr>],
       apply_fn = testApply, mw = chainProcess []\<rparr>
         :: (Stringer, unit, Stringer Data, string list) Workflow) \<and>
   mw (\<lparr>transitions = [toNew \<mapsto> \<lparr>Src = [], Dst = newState, Middleware = chainProcess []\<rparr>],
       apply_fn = testApply, mw = chainProcess []\<rparr>
         :: (Stringer, unit, Stringer Data, string list) Workflow) \<noteq> None \<and>
   Middleware (\<lparr>Src = [], Dst = newState, Middleware = chainProcess []\<rparr>
      :: (Stringer, unit, Stringer Data, string list) Transition) \<noteq> None"
proof -
  let ?T1 = "\<lparr>Src = [], Dst = newState, Middleware = chainProcess []\<rparr>
      :: (Stringer, unit, Stringer Data, string list) Transition"
  let ?W1 = "\<lparr>transitions = [toNew \<mapsto> ?T1], apply_fn = testApply, mw = chainProcess []\<rparr>
      :: (Stringer, unit, Stringer Data, string list) Workflow"
  have b0: "built (NewWorkflow testApply [] :: (Stringer, unit, Stringer Data, string list) Workflow)"
    by (rule built_New) simp
  have b1: "built ?W1"
    by (rule built_Add [OF b0 _ TestWorkflow_Add_first]) simp
  have reg: "transitions ?W1 toNew = Some ?T1" by simp
  show ?thesis
    using TestWorkflow_Add_first b1 reg
      stored_Middleware_non_nil [where w = "NewWorkflow testApply []" and name = toNew
        and transit = "\<lparr>Src = [], Dst = newState, Middleware = None\<rparr>" and mws = "[]"
        and w' = ?W1 and transit' = ?T1 and b = ?W1 and a = testApply and gmws = "[]"]
    by (simp add: chainProcess_def)
qed

end
